theory Spec2Isabelle
  imports Main
begin

section \<open>Regions and the host editor interface\<close>

text \<open>
  The plugin works on a view of the host editor. A region is a pair of character offsets
  \<open>(a, b)\<close>; \<open>b\<close> is the caret side, so a region with \<open>b < a\<close> is reversed.
  \<open>begin()\<close> and \<open>end()\<close> are the smaller and the larger offset, \<open>empty()\<close> holds
  when both coincide.
\<close>

datatype Region = Region (region_a: int) (region_b: int)

definition region_begin :: "Region \<Rightarrow> int" where
  "region_begin r = min (region_a r) (region_b r)"

definition region_end :: "Region \<Rightarrow> int" where
  "region_end r = max (region_a r) (region_b r)"

definition region_empty :: "Region \<Rightarrow> bool" where
  "region_empty r = (region_a r = region_b r)"

text \<open>
  The classification bits the plugin tests (\<open>x & WORD_START\<close> is membership here,
  \<open>WORD_START | WORD_END\<close> a two-element set) and the search flags it passes.
\<close>

datatype PointClassification = WORD_START | WORD_END

datatype FindFlags = REVERSE | IGNORECASE | WRAP

text \<open>
  A view: every primitive of the host API that the plugin calls is a field, so that results
  stated for an arbitrary view hold whatever the host answers. \<open>sel\<close> is the selection
  (the only state the plugin changes), \<open>centered\<close> the region last scrolled into view.
  \<open>goto_line\<close> is the effect of the host command of that name on the selection.
\<close>

record View =
  classify :: "int \<Rightarrow> PointClassification set"
  find_by_class :: "int \<Rightarrow> bool \<Rightarrow> PointClassification set \<Rightarrow> int"
  expand_by_class :: "int \<Rightarrow> PointClassification set \<Rightarrow> Region"
  rowcol :: "int \<Rightarrow> int \<times> int"
  text_point :: "int \<Rightarrow> int \<Rightarrow> int"
  substr :: "Region \<Rightarrow> string"
  find :: "string \<Rightarrow> int \<Rightarrow> FindFlags set \<Rightarrow> Region"
  find_all :: "string \<Rightarrow> FindFlags set \<Rightarrow> Region \<Rightarrow> Region list"
  word :: "Region \<Rightarrow> Region"
  goto_line :: "int \<Rightarrow> Region list \<Rightarrow> Region list"
  buffer_id :: int
  sel :: "Region list"
  centered :: "Region option"

subsection \<open>A text buffer as host\<close>

text \<open>
  The documented behaviour of the host primitives over a buffer of characters: a word
  character is a letter, a digit or the underscore; a point is a word start when a word
  character follows it and none precedes it, a word end in the mirrored situation;
  \<open>find_by_class\<close> walks from the point (exclusive) to the first point carrying one of the
  classes and stops at the buffer's end (forwards) or start (backwards);
  \<open>expand_by_class\<close> does so in both directions.
\<close>

definition is_word_char :: "char \<Rightarrow> bool" where
  "is_word_char c = (let n = (of_char c :: nat) in
     (48 \<le> n \<and> n \<le> 57) \<or> (65 \<le> n \<and> n \<le> 90) \<or> n = 95 \<or> (97 \<le> n \<and> n \<le> 122))"

definition word_at :: "string \<Rightarrow> int \<Rightarrow> bool" where
  "word_at t p = (0 \<le> p \<and> p < int (length t) \<and> is_word_char (t ! nat p))"

definition classify_text :: "string \<Rightarrow> int \<Rightarrow> PointClassification set" where
  "classify_text t p =
     (if word_at t p \<and> \<not> word_at t (p - 1) then {WORD_START} else {}) \<union>
     (if word_at t (p - 1) \<and> \<not> word_at t p then {WORD_END} else {})"

definition find_by_class_text :: "string \<Rightarrow> int \<Rightarrow> bool \<Rightarrow> PointClassification set \<Rightarrow> int" where
  "find_by_class_text t p forward classes =
     (if forward then
        (case List.find (\<lambda>q. p < q \<and> classify_text t q \<inter> classes \<noteq> {}) [0..int (length t)] of
           Some q \<Rightarrow> q | None \<Rightarrow> int (length t))
      else
        (case List.find (\<lambda>q. q < p \<and> classify_text t q \<inter> classes \<noteq> {}) (rev [0..int (length t)]) of
           Some q \<Rightarrow> q | None \<Rightarrow> 0))"

definition expand_by_class_text :: "string \<Rightarrow> int \<Rightarrow> PointClassification set \<Rightarrow> Region" where
  "expand_by_class_text t p classes =
     Region (find_by_class_text t p False classes) (find_by_class_text t p True classes)"

definition newline :: char where
  "newline = CHR 0x0A"

definition clamp_pt :: "string \<Rightarrow> int \<Rightarrow> nat" where
  "clamp_pt t p = min (length t) (nat p)"

definition rowcol_text :: "string \<Rightarrow> int \<Rightarrow> int \<times> int" where
  "rowcol_text t p =
     (let pre = take (clamp_pt t p) t
      in (int (length (filter (\<lambda>c. c = newline) pre)),
          int (length (takeWhile (\<lambda>c. c \<noteq> newline) (rev pre)))))"

fun row_start :: "string \<Rightarrow> nat \<Rightarrow> nat" where
  "row_start t 0 = 0"
| "row_start t (Suc k) =
     (case dropWhile (\<lambda>c. c \<noteq> newline) t of
        [] \<Rightarrow> length t
      | _ # rest \<Rightarrow> (length t - length rest) + row_start rest k)"

definition text_point_text :: "string \<Rightarrow> int \<Rightarrow> int \<Rightarrow> int" where
  "text_point_text t row col = int (min (length t) (row_start t (nat row) + nat col))"

definition substr_text :: "string \<Rightarrow> Region \<Rightarrow> string" where
  "substr_text t r =
     take (clamp_pt t (region_end r) - clamp_pt t (region_begin r)) (drop (clamp_pt t (region_begin r)) t)"

text \<open>
  The view over a buffer \<open>t\<close> with selection \<open>s\<close>. The regular-expression search
  (\<open>find\<close>, \<open>find_all\<close>), \<open>word\<close> and \<open>goto_line\<close> stay arguments: the host's
  answers to them are given with each example.
\<close>

definition text_view ::
  "string \<Rightarrow> Region list \<Rightarrow> (string \<Rightarrow> int \<Rightarrow> FindFlags set \<Rightarrow> Region) \<Rightarrow>
   (string \<Rightarrow> FindFlags set \<Rightarrow> Region \<Rightarrow> Region list) \<Rightarrow> (Region \<Rightarrow> Region) \<Rightarrow> View" where
  "text_view t s f fa w =
     \<lparr> classify = classify_text t,
       find_by_class = find_by_class_text t,
       expand_by_class = expand_by_class_text t,
       rowcol = rowcol_text t,
       text_point = text_point_text t,
       substr = substr_text t,
       find = f,
       find_all = fa,
       word = w,
       goto_line = (\<lambda>row rs. [Region (text_point_text t (row - 1) 0) (text_point_text t (row - 1) 0)]),
       buffer_id = 1,
       sel = s,
       centered = None \<rparr>"

section \<open>The region classifier (sublime\_util/view.py)\<close>

definition is_not_part_of_any_word :: "View \<Rightarrow> Region \<Rightarrow> bool" where
  "is_not_part_of_any_word view region =
     (let start_class = classify view (region_begin region) in
      if WORD_START \<in> start_class \<and> region_empty region then True
      else
        let exp_start_pt = find_by_class view (region_begin region) True {WORD_START, WORD_END};
            exp_class = classify view exp_start_pt
        in if WORD_START \<in> exp_class then
             (if exp_start_pt \<ge> region_end region then True else False)
           else False)"

definition is_single_complete_word :: "View \<Rightarrow> Region \<Rightarrow> bool" where
  "is_single_complete_word view region =
     (let start_class = classify view (region_begin region) in
      if WORD_START \<in> start_class then
        (let word_end_pt = find_by_class view (region_begin region) True {WORD_END}
         in word_end_pt = region_end region)
      else False)"

definition is_multiple_complete_words :: "View \<Rightarrow> Region \<Rightarrow> bool" where
  "is_multiple_complete_words view region =
     (let start_class = classify view (region_begin region) in
      if WORD_START \<in> start_class then
        (let end_class = classify view (region_end region) in
         if WORD_END \<in> end_class then \<not> is_single_complete_word view region
         else False)
      else False)"

definition is_part_of_multiple_words :: "View \<Rightarrow> Region \<Rightarrow> bool" where
  "is_part_of_multiple_words view region =
     (let end_point = find_by_class view (region_begin region) True {WORD_END};
          start_point = find_by_class view end_point True {WORD_START}
      in region_end region \<ge> start_point + 1)"

section \<open>Errors, values and observable events\<close>

text \<open>
  Python exceptions are values of \<open>error\<close>; a function that may raise returns
  \<open>error + 'a\<close>. The values a setting can hold are \<open>pyval\<close>. What a run does besides
  computing its result is a list of events in the order of occurrence: a call of the logger
  (with its level and the message as written in the source, placeholders not expanded) and
  a call of a change listener (its tag and the three arguments).
\<close>

datatype error =
  KeyError | ValueError | NameError | AttributeError | RuntimeError | IndexError | TypeError
  | NotImplementedError

datatype log_level = DEBUG | INFO | WARNING | ERROR

datatype pyval = PNone | PBool bool | PInt int | PStr string

datatype event = Log log_level string | Invoke string string pyval pyval

section \<open>Word locator (sublime\_util/view.py)\<close>

text \<open>\<open>_get_word_region_near_pt\<close>; private names lose the leading underscore or get \<open>u_\<close>.\<close>

definition get_word_region_near_pt ::
  "View \<Rightarrow> int \<Rightarrow> bool \<Rightarrow> (int \<Rightarrow> Region \<Rightarrow> int) \<Rightarrow> Region" where
  "get_word_region_near_pt view pt in_line get_point =
     (let expanded_region = expand_by_class view pt {WORD_START, WORD_END};
          pt_classifier = classify view pt
      in if WORD_START \<in> pt_classifier then Region pt (region_end expanded_region)
         else if WORD_END \<in> pt_classifier then Region (region_begin expanded_region) pt
         else if WORD_START \<in> classify view (region_begin expanded_region) then expanded_region
         else
           let start_line = fst (rowcol view pt);
               new_pt0 = get_point pt expanded_region;
               new_line = fst (rowcol view new_pt0);
               new_pt =
                 (if in_line \<and> start_line \<noteq> new_line then
                    (if new_line < start_line then find_by_class view pt True {WORD_START}
                     else find_by_class view pt False {WORD_END})
                  else new_pt0)
           in if WORD_START \<in> classify view new_pt then
                Region new_pt (find_by_class view new_pt True {WORD_END})
              else Region (find_by_class view new_pt False {WORD_START}) new_pt)"

definition get_closest_point :: "int \<Rightarrow> Region \<Rightarrow> int" where
  "get_closest_point pt region =
     (let from_start = pt - region_begin region;
          from_end = region_end region - pt
      in if from_start \<le> from_end then region_begin region else region_end region)"

definition get_closest_word_region_from_pt :: "View \<Rightarrow> int \<Rightarrow> bool \<Rightarrow> Region" where
  "get_closest_word_region_from_pt view pt in_line =
     get_word_region_near_pt view pt in_line (\<lambda>pt r. get_closest_point pt r)"

definition get_next_word_region_from_pt :: "View \<Rightarrow> int \<Rightarrow> bool \<Rightarrow> Region" where
  "get_next_word_region_from_pt view pt in_line =
     get_word_region_near_pt view pt in_line (\<lambda>pt r. region_end r)"

definition get_previous_word_region_from_pt :: "View \<Rightarrow> int \<Rightarrow> bool \<Rightarrow> Region" where
  "get_previous_word_region_from_pt view pt in_line =
     get_word_region_near_pt view pt in_line (\<lambda>pt r. region_begin r)"

section \<open>Same-word search and in-line search (sublime\_util/view.py)\<close>

definition backslash :: char where
  "backslash = CHR 0x5C"

definition same_word_regex :: "string \<Rightarrow> string" where
  "same_word_regex w = [backslash, CHR ''b''] @ w @ [backslash, CHR ''b'']"

definition word_regex :: string where
  "word_regex = [backslash, CHR ''b''] @ ''('' @ [backslash, CHR ''w''] @ ''+)'' @ [backslash, CHR ''b'']"

definition get_region_of_closet_same_word ::
  "View \<Rightarrow> Region \<Rightarrow> bool \<Rightarrow> bool \<Rightarrow> bool \<Rightarrow> event list \<times> Region option" where
  "get_region_of_closet_same_word view word_region forward wrap case_sensitive =
     (let point = (if forward then region_end word_region else region_begin word_region);
          wordstr = substr view word_region;
          flags = (if \<not> forward then {REVERSE} else {})
                  \<union> (if \<not> case_sensitive then {IGNORECASE} else {})
                  \<union> (if wrap then {WRAP} else {});
          regex = same_word_regex wordstr;
          region = find view regex point flags
      in if region_empty region then ([], None)
         else ([Log DEBUG ''{txt} word is '{adj_word}' ({line}, [{col_start}:{col_end}]).''],
               Some region))"

definition reverse_region :: "Region \<Rightarrow> Region" where
  "reverse_region region = Region (region_end region) (region_begin region)"

text \<open>The nested helper \<open>_get_region_of_closet_word_in_line\<close>: one search of a part of a line.\<close>

definition u_get_region_of_closet_word_in_line ::
  "View \<Rightarrow> bool \<Rightarrow> int \<Rightarrow> int \<Rightarrow> event list \<times> Region list" where
  "u_get_region_of_closet_word_in_line view forward line col =
     (let flags = (if \<not> forward then {REVERSE} else {});
          regex = word_regex;
          line_region =
            (if forward then Region (text_point view line col) (text_point view (line + 1) 0)
             else Region (text_point view line 0) (text_point view line col))
      in ([Log DEBUG ''Searching region {line_region} ('{view.substr(line_region)}').''],
          find_all view regex flags line_region))"

text \<open>The end of \<open>get_region_of_closest_word_in_line\<close>: the first or the last region found.\<close>

definition choose_region :: "bool \<Rightarrow> Region list \<Rightarrow> event list \<times> Region option" where
  "choose_region forward regions =
     (if regions = [] then ([], None)
      else
        let region = (if forward then hd regions else reverse_region (last regions))
        in ([Log DEBUG ''{txt} word is '{adj_word}' ({line}, [{col_start}:{col_end}]).''],
            Some region))"

definition get_region_of_closest_word_in_line ::
  "View \<Rightarrow> int \<Rightarrow> bool \<Rightarrow> bool \<Rightarrow> event list \<times> Region option" where
  "get_region_of_closest_word_in_line view point forward wrap =
     (let line = fst (rowcol view point);
          col = snd (rowcol view point);
          l0 = [Log DEBUG ''Finding closest word in line from {line + 1}:{col}.''];
          (l1, regions) = u_get_region_of_closet_word_in_line view forward line col
      in if regions = [] then
           (let l2 = l0 @ l1 @ [Log DEBUG ''No region found.'']
            in if \<not> wrap then (l2, None)
               else
                 let rc = rowcol view (text_point view (line + 1) 0 - 1);
                     line' = (if forward then line else fst rc);
                     new_col = (if forward then 0 else snd rc)
                 in if col = new_col then (l2, None)
                    else
                      let (l3, regions') = u_get_region_of_closet_word_in_line view forward line' new_col;
                          (l4, res) = choose_region forward regions'
                      in (l2 @ l3 @ l4, res))
         else
           (let (l4, res) = choose_region forward regions in (l0 @ l1 @ l4, res)))"

section \<open>Selection (sublime\_util/selection.py)\<close>

definition get_caret_points :: "View \<Rightarrow> int list" where
  "get_caret_points view = map region_b (sel view)"

definition is_multiple_regions_selected :: "View \<Rightarrow> bool" where
  "is_multiple_regions_selected view = (length (sel view) > 1)"

definition get_caret_point :: "View \<Rightarrow> error + int" where
  "get_caret_point view =
     (if is_multiple_regions_selected view then Inl RuntimeError
      else case get_caret_points view of [] \<Rightarrow> Inl IndexError | p # _ \<Rightarrow> Inr p)"

text \<open>The host's selection is never \<open>None\<close>; indexing an empty one raises.\<close>

definition get_first_selected_region :: "View \<Rightarrow> error + Region" where
  "get_first_selected_region view =
     (case sel view of [] \<Rightarrow> Inl IndexError | r # _ \<Rightarrow> Inr r)"

definition get_single_selected_region :: "View \<Rightarrow> error + Region" where
  "get_single_selected_region view =
     (if is_multiple_regions_selected view then Inl RuntimeError
      else get_first_selected_region view)"

definition select_and_zoom_to_region :: "View \<Rightarrow> Region \<Rightarrow> error + View" where
  "select_and_zoom_to_region view region =
     (case sel view of
        [] \<Rightarrow> Inl IndexError
      | r0 # _ \<Rightarrow>
          let row = fst (rowcol view (region_begin r0));
              v1 = view\<lparr>sel := goto_line view row (sel view)\<rparr>;
              v2 = v1\<lparr>sel := []\<rparr>;
              v3 = v2\<lparr>sel := sel v2 @ [region]\<rparr>
          in Inr (v3\<lparr>centered := Some (hd (sel v3))\<rparr>))"

section \<open>Navigation policy (word\_navigate.py)\<close>

text \<open>
  What the policy reads from its surroundings: the truth value of each setting
  (\<open>settings.expand_first\<close> and the like are tested through \<open>__bool__\<close>), and
  \<open>index.get_index\<close>, whose module is not part of the sources at hand and is therefore a
  parameter: it returns an index object, \<open>None\<close>, or raises.
\<close>

datatype Index = Index

record Env =
  use_index :: bool
  allow_multiple_words :: bool
  expand_first :: bool
  wrap_buffer :: bool
  wrap_line :: bool
  case_sensitive :: bool
  get_index :: "int \<Rightarrow> error + Index option"

text \<open>
  \<open>_get_region_of_word_closest_to_region\<close> either returns a region at once or goes on
  with a word region to search for; \<open>flow\<close> tells the two apart. \<open>choose_word_region\<close>
  is the case analysis of the function (up to the comment ``Get index if we are using it''),
  \<open>find_from_word_region\<close> the rest of its body.
\<close>

datatype flow = Return Region | Pivot Region

definition with_caret ::
  "View \<Rightarrow> event list \<Rightarrow> (int \<Rightarrow> flow) \<Rightarrow> event list \<times> (error + flow)" where
  "with_caret view l k =
     (case get_caret_point view of Inl e \<Rightarrow> (l, Inl e) | Inr caret_pt \<Rightarrow> (l, Inr (k caret_pt)))"

definition choose_word_region ::
  "Env \<Rightarrow> View \<Rightarrow> Region \<Rightarrow> bool \<Rightarrow> event list \<times> (error + flow)" where
  "choose_word_region settings view region forward =
     (if is_not_part_of_any_word view region then
        with_caret view
          [Log DEBUG ''No word selected ('{view.substr(region)}') - finding closest.'']
          (\<lambda>caret_pt.
             if forward then Return (get_next_word_region_from_pt view caret_pt False)
             else Return (get_previous_word_region_from_pt view caret_pt False))
      else if is_single_complete_word view region then
        ([Log DEBUG ''Single word '{view.substr(region)}' selected - finding closest.''],
         Inr (Pivot region))
      else if is_multiple_complete_words view region then
        (if \<not> allow_multiple_words settings then
           (if expand_first settings then
              with_caret view
                [Log DEBUG ''Multiple words ('{view.substr(region)}') selected - expanding to single word under caret.'']
                (\<lambda>caret_pt. Return (get_closest_word_region_from_pt view caret_pt False))
            else
              with_caret view
                [Log DEBUG ''Multiple words ('{view.substr(region)}') selected - finding next closest single word from caret.'']
                (\<lambda>caret_pt. Pivot (get_closest_word_region_from_pt view caret_pt False)))
         else
           ([Log DEBUG ''Multiple words ('{view.substr(region)}') selected - finding next closest combination of words.''],
            Inr (Pivot region)))
      else if is_part_of_multiple_words view region then
        (if \<not> allow_multiple_words settings then
           (if expand_first settings then
              with_caret view
                [Log DEBUG ''Part of multiple words ('{view.substr(region)}') selected - expanding to single word under caret.'']
                (\<lambda>caret_pt. Return (get_closest_word_region_from_pt view caret_pt False))
            else
              with_caret view
                [Log DEBUG ''Part of multiple words ('{view.substr(region)}') selected - finding next closest single word from caret.'']
                (\<lambda>caret_pt. Pivot (get_closest_word_region_from_pt view caret_pt False)))
         else
           (if expand_first settings then
              ([Log DEBUG ''Part of multiple words ('{view.substr(region)}') selected - expanding to words.''],
               Inr (Return (word view region)))
            else
              ([Log DEBUG ''Part of multiple words ('{view.substr(region)}') selected - finding next closest combination of words.''],
               Inr (Pivot region))))
      else
        (if expand_first settings then
           ([Log DEBUG ''Part of single word ('{view.substr(region)}') selected - expanding to word''],
            Inr (Return (word view region)))
         else
           ([Log DEBUG ''Part of single word ('{view.substr(region)}') selected - finding closest.''],
            Inr (Pivot (word view region)))))"

definition find_from_word_region ::
  "Env \<Rightarrow> View \<Rightarrow> Region \<Rightarrow> bool \<Rightarrow> event list \<times> (error + Region option)" where
  "find_from_word_region settings view word_region forward =
     (let u_id = buffer_id view;
          (l1, idx) =
            (if use_index settings then
               (case get_index settings u_id of
                  Inl KeyError \<Rightarrow> ([Log WARNING ''Failed getting index: {e}''], Inr None)
                | Inl e \<Rightarrow> ([], Inl e)
                | Inr i \<Rightarrow> ([], Inr i))
             else ([], Inr None))
      in case idx of
           Inl e \<Rightarrow> (l1, Inl e)
         | Inr (Some i) \<Rightarrow> (l1 @ [Log WARNING ''Not implemented.''], Inr None)
         | Inr None \<Rightarrow>
             (let (l2, r) = get_region_of_closet_same_word view word_region forward
                              (wrap_buffer settings) (case_sensitive settings)
              in (l1 @ [Log DEBUG ''No index - navigating manually.''] @ l2, Inr r)))"

definition u_get_region_of_word_closest_to_region ::
  "Env \<Rightarrow> View \<Rightarrow> Region \<Rightarrow> bool \<Rightarrow> event list \<times> (error + Region option)" where
  "u_get_region_of_word_closest_to_region settings view region forward =
     (case choose_word_region settings view region forward of
        (l, Inl e) \<Rightarrow> (l, Inl e)
      | (l, Inr (Return r)) \<Rightarrow> (l, Inr (Some r))
      | (l, Inr (Pivot word_region)) \<Rightarrow>
          (let (l2, r) = find_from_word_region settings view word_region forward
           in (l @ l2, r)))"

definition u_get_region_of_word_closest_to_selection ::
  "Env \<Rightarrow> View \<Rightarrow> bool \<Rightarrow> event list \<times> (error + Region option)" where
  "u_get_region_of_word_closest_to_selection settings view forward =
     (if is_multiple_regions_selected view then
        ([Log WARNING ''Multiple regions selected - doing nothing.''], Inr None)
      else
        case get_single_selected_region view of
          Inl e \<Rightarrow> ([], Inl e)
        | Inr sel_region \<Rightarrow> u_get_region_of_word_closest_to_region settings view sel_region forward)"

text \<open>
  \<open>apply_region\<close> is the common end of \<open>_navigate\<close> and \<open>_navigate_in_line\<close>: with a
  region, log the word and select it; without, leave the view as it is.
\<close>

definition apply_region ::
  "View \<Rightarrow> bool \<Rightarrow> event list \<times> (error + Region option) \<Rightarrow> event list \<times> (error + View)" where
  "apply_region view forward res =
     (case res of
        (l, Inl e) \<Rightarrow> (l, Inl e)
      | (l, Inr None) \<Rightarrow> (l, Inr view)
      | (l, Inr (Some region)) \<Rightarrow>
          (let l' = l @ [Log DEBUG (if forward then ''Next word is '{word}'.''
                                    else ''Previous word is '{word}'.'')]
           in case select_and_zoom_to_region view region of
                Inl e \<Rightarrow> (l', Inl e)
              | Inr view' \<Rightarrow> (l', Inr view')))"

definition u_navigate :: "Env \<Rightarrow> View \<Rightarrow> bool \<Rightarrow> event list \<times> (error + View)" where
  "u_navigate settings view forward =
     apply_region view forward (u_get_region_of_word_closest_to_selection settings view forward)"

text \<open>
  In \<open>_get_region_of_closest_word_in_line\<close> the second test calls
  \<open>view_util.is_single_word\<close>, a name that \<open>view.py\<close> does not define: looking it up
  raises \<open>AttributeError\<close>, and the branches after it are never reached.
\<close>

definition u_get_region_of_closest_word_in_line ::
  "Env \<Rightarrow> View \<Rightarrow> bool \<Rightarrow> event list \<times> (error + Region option)" where
  "u_get_region_of_closest_word_in_line settings view forward =
     (if is_multiple_regions_selected view then
        ([Log WARNING ''Multiple regions selected - doing nothing.''], Inr None)
      else
        case get_single_selected_region view of
          Inl e \<Rightarrow> ([], Inl e)
        | Inr region \<Rightarrow>
            if is_not_part_of_any_word view region then
              (let l = [Log DEBUG ''No word selected ('{view.substr(region)}').'']
               in case get_caret_point view of
                    Inl e \<Rightarrow> (l, Inl e)
                  | Inr caret_pt \<Rightarrow>
                      (let (l2, r) = get_region_of_closest_word_in_line view caret_pt forward
                                       (wrap_line settings)
                       in (l @ l2, Inr r)))
            else ([], Inl AttributeError))"

definition u_navigate_in_line :: "Env \<Rightarrow> View \<Rightarrow> bool \<Rightarrow> event list \<times> (error + View)" where
  "u_navigate_in_line settings view forward =
     apply_region view forward (u_get_region_of_closest_word_in_line settings view forward)"

definition navigate_backward :: "Env \<Rightarrow> View \<Rightarrow> event list \<times> (error + View)" where
  "navigate_backward settings view = u_navigate settings view False"

definition navigate_forward :: "Env \<Rightarrow> View \<Rightarrow> event list \<times> (error + View)" where
  "navigate_forward settings view = u_navigate settings view True"

definition navigate_backward_in_line :: "Env \<Rightarrow> View \<Rightarrow> event list \<times> (error + View)" where
  "navigate_backward_in_line settings view = u_navigate_in_line settings view False"

definition navigate_forward_in_line :: "Env \<Rightarrow> View \<Rightarrow> event list \<times> (error + View)" where
  "navigate_forward_in_line settings view = u_navigate_in_line settings view True"

text \<open>
  The four commands of \<open>plugin.py\<close>: an \<open>INFO\<close> entry, then the navigation on the active
  view. (The timing line that \<open>time_this\<close> prints goes to standard output, not to the log.)
\<close>

definition command_run ::
  "string \<Rightarrow> (Env \<Rightarrow> View \<Rightarrow> event list \<times> (error + View)) \<Rightarrow> Env \<Rightarrow> View \<Rightarrow>
   event list \<times> (error + View)" where
  "command_run msg nav settings view = (let (l, r) = nav settings view in (Log INFO msg # l, r))"

definition WordNavigatePreviousCommand :: "Env \<Rightarrow> View \<Rightarrow> event list \<times> (error + View)" where
  "WordNavigatePreviousCommand =
     command_run ''Running command to find previous word.'' navigate_backward"

definition WordNavigateNextCommand :: "Env \<Rightarrow> View \<Rightarrow> event list \<times> (error + View)" where
  "WordNavigateNextCommand =
     command_run ''Running command to find next word.'' navigate_forward"

definition WordNavigatePreviousInLineCommand :: "Env \<Rightarrow> View \<Rightarrow> event list \<times> (error + View)" where
  "WordNavigatePreviousInLineCommand =
     command_run ''Running command to find previous word on the same line.'' navigate_backward_in_line"

definition WordNavigateNextInLineCommand :: "Env \<Rightarrow> View \<Rightarrow> event list \<times> (error + View)" where
  "WordNavigateNextInLineCommand =
     command_run ''Running command to find next word on the same line.'' navigate_forward_in_line"

definition warnings :: "event list \<Rightarrow> event list" where
  "warnings l = filter (\<lambda>e. case e of Log lvl m \<Rightarrow> lvl = WARNING | _ \<Rightarrow> False) l"

section \<open>Validators (sublime\_util/validators.py)\<close>

text \<open>
  \<open>str(x)\<close> of Python on the values at hand. \<open>str.lower\<close> belongs to Python's
  library and knows all of Unicode; the functions that call it take it as their first
  argument \<open>lower\<close>, so that what is proved of them holds for whatever it computes.
  \<open>ascii_lower\<close>, which maps the capitals \<open>A\<close> to \<open>Z\<close>, agrees with it on ASCII
  strings and is used in the examples, whose strings are all ASCII.
\<close>

definition digit_char :: "nat \<Rightarrow> char" where
  "digit_char d = char_of (48 + d)"

fun str_nat :: "nat \<Rightarrow> string" where
  "str_nat n = (if n < 10 then [digit_char n] else str_nat (n div 10) @ [digit_char (n mod 10)])"

definition str_int :: "int \<Rightarrow> string" where
  "str_int i = (if i < 0 then CHR ''-'' # str_nat (nat (- i)) else str_nat (nat i))"

fun py_str :: "pyval \<Rightarrow> string" where
  "py_str PNone = ''None''"
| "py_str (PBool b) = (if b then ''True'' else ''False'')"
| "py_str (PInt i) = str_int i"
| "py_str (PStr s) = s"

definition lower_char :: "char \<Rightarrow> char" where
  "lower_char c =
     (let n = (of_char c :: nat) in if 65 \<le> n \<and> n \<le> 90 then char_of (n + 32) else c)"

definition ascii_lower :: "string \<Rightarrow> string" where
  "ascii_lower s = map lower_char s"

datatype Validator =
  ListValidator (u_allowed_values: "string list")
  | IntegerRangeValidator (u_min: int) (u_max: int)
  | BooleanValidator

text \<open>
  \<open>ListValidator.validate\<close>: the loop over the allowed values; \<open>value.lower()\<close> is
  evaluated in each round and exists for strings only.
\<close>

fun list_validate :: "(string \<Rightarrow> string) \<Rightarrow> string list \<Rightarrow> pyval \<Rightarrow> error + pyval option" where
  "list_validate lower [] v = Inr None"
| "list_validate lower (val # rest) v =
     (case v of
        PStr s \<Rightarrow> if lower s = val then Inr (Some (PStr val)) else list_validate lower rest v
      | _ \<Rightarrow> Inl AttributeError)"

text \<open>
  \<open>IntegerRangeValidator.validate\<close>: \<open>value if value >= self._min and value <= self._max
  else None\<close>. A \<open>bool\<close> compares as 0 or 1; a string or \<open>None\<close> does not compare with
  an \<open>int\<close>.
\<close>

definition range_validate :: "int \<Rightarrow> int \<Rightarrow> pyval \<Rightarrow> error + pyval option" where
  "range_validate lo hi v =
     (case v of
        PInt i \<Rightarrow> Inr (if i \<ge> lo \<and> i \<le> hi then Some v else None)
      | PBool b \<Rightarrow> Inr (if (if b then 1 else 0) \<ge> lo \<and> (if b then 1 else 0) \<le> hi then Some v else None)
      | _ \<Rightarrow> Inl TypeError)"

definition boolean_validate :: "(string \<Rightarrow> string) \<Rightarrow> pyval \<Rightarrow> error + pyval option" where
  "boolean_validate lower v =
     (let s = lower (py_str v)
      in Inr (if s = ''true'' then Some (PBool True)
              else if s = ''false'' then Some (PBool False) else None))"

fun validate :: "(string \<Rightarrow> string) \<Rightarrow> Validator \<Rightarrow> pyval \<Rightarrow> error + pyval option" where
  "validate lower (ListValidator allowed) v = list_validate lower allowed v"
| "validate lower (IntegerRangeValidator lo hi) v = range_validate lo hi v"
| "validate lower BooleanValidator v = boolean_validate lower v"

text \<open>
  The constructor of \<open>IntegerRangeValidator\<close> has the parameters \<open>min\<close> and \<open>max\<close>
  and its body reads \<open>minimum\<close> and \<open>maximum\<close>. A name is looked up among the local
  variables; the module (which defines \<open>logging\<close>, \<open>logger\<close> and the four classes) and
  the built-in names hold neither of the two, so a name that is not local raises
  \<open>NameError\<close>.
\<close>

definition lookup_name :: "(string \<times> int) list \<Rightarrow> string \<Rightarrow> error + int" where
  "lookup_name locals x = (case map_of locals x of Some v \<Rightarrow> Inr v | None \<Rightarrow> Inl NameError)"

definition IntegerRangeValidator_init :: "int \<Rightarrow> int \<Rightarrow> error + Validator" where
  "IntegerRangeValidator_init mn mx =
     (let locals = [(''min'', mn), (''max'', mx)]
      in case lookup_name locals ''minimum'' of
           Inl e \<Rightarrow> Inl e
         | Inr lo \<Rightarrow>
             (case lookup_name locals ''maximum'' of
                Inl e \<Rightarrow> Inl e
              | Inr hi \<Rightarrow> Inr (IntegerRangeValidator lo hi)))"

section \<open>Settings (sublime\_util/settings.py)\<close>

text \<open>
  A listener is called with the setting's name, the old and the new value; it returns or
  raises. The dictionary of listeners keeps the order of registration.
\<close>

type_synonym callback = "string \<Rightarrow> pyval \<Rightarrow> pyval \<Rightarrow> error option"

record SingleSetting =
  u_name :: string
  u_value :: pyval
  u_validator :: Validator
  u_callbacks :: "(string \<times> callback) list"

text \<open>
  A method returns the events, the exception raised (if any) and the setting afterwards.
\<close>

definition add_on_change ::
  "SingleSetting \<Rightarrow> string \<Rightarrow> callback \<Rightarrow> event list \<times> error option \<times> SingleSetting" where
  "add_on_change self tag cb =
     (case map_of (u_callbacks self) tag of
        None \<Rightarrow>
          ([Log DEBUG ''Adding callback '{tag}' for setting '{self._name}'.''], None,
           self\<lparr>u_callbacks := u_callbacks self @ [(tag, cb)]\<rparr>)
      | Some _ \<Rightarrow> ([], Some ValueError, self))"

definition clear_on_change ::
  "SingleSetting \<Rightarrow> string \<Rightarrow> event list \<times> error option \<times> SingleSetting" where
  "clear_on_change self tag =
     (case map_of (u_callbacks self) tag of
        None \<Rightarrow> ([], Some ValueError, self)
      | Some _ \<Rightarrow>
          ([Log DEBUG ''Removing callback '{tag}' for setting '{self._name}'.''], None,
           self\<lparr>u_callbacks := filter (\<lambda>kv. fst kv \<noteq> tag) (u_callbacks self)\<rparr>))"

fun run_callbacks ::
  "(string \<times> callback) list \<Rightarrow> string \<Rightarrow> pyval \<Rightarrow> pyval \<Rightarrow> event list \<times> error option" where
  "run_callbacks [] name old new = ([], None)"
| "run_callbacks ((k, v) # rest) name old new =
     (case v name old new of
        Some e \<Rightarrow> ([Invoke k name old new], Some e)
      | None \<Rightarrow>
          (let (evs, r) = run_callbacks rest name old new
           in (Invoke k name old new # evs, r)))"

definition u_update ::
  "(string \<Rightarrow> string) \<Rightarrow> SingleSetting \<Rightarrow> pyval \<Rightarrow> event list \<times> error option \<times> SingleSetting" where
  "u_update lower self v =
     (if lower (py_str v) \<noteq> lower (py_str (u_value self)) then
        (case validate lower (u_validator self) v of
           Inl e \<Rightarrow> ([], Some e, self)
         | Inr None \<Rightarrow> ([], Some ValueError, self)
         | Inr (Some encoded_value) \<Rightarrow>
             (let old_value = u_value self;
                  self' = self\<lparr>u_value := encoded_value\<rparr>;
                  (evs, r) = run_callbacks (u_callbacks self') (u_name self') old_value (u_value self')
              in (Log DEBUG ''Changed setting '{self._name}' from '{self._value}' to '{encoded_value}'.'' # evs,
                  r, self')))
      else ([], None, self))"

definition SingleSetting_init ::
  "(string \<Rightarrow> string) \<Rightarrow> string \<Rightarrow> pyval \<Rightarrow> Validator \<Rightarrow>
   event list \<times> error option \<times> SingleSetting" where
  "SingleSetting_init lower name v validator =
     u_update lower
       \<lparr>u_name = name, u_value = PNone, u_validator = validator, u_callbacks = []\<rparr>
       (PStr (py_str v))"


section \<open>Example data\<close>

text \<open>
  A view over a buffer whose regular-expression searches find nothing (the host's answer
  for ``no match'' is the region \<open>(-1, -1)\<close>) and whose \<open>word\<close> is not called in the
  examples that use it; a listener that returns; a setting with two listeners.
\<close>

definition quiet_view :: "string \<Rightarrow> Region list \<Rightarrow> View" where
  "quiet_view t s = text_view t s (\<lambda>rx pt fl. Region (- 1) (- 1)) (\<lambda>rx fl within. []) (\<lambda>r. r)"

definition quiet_listener :: callback where
  "quiet_listener name old new = None"

definition log_level_setting :: SingleSetting where
  "log_level_setting =
     \<lparr>u_name = ''log_level'', u_value = PStr ''warning'',
      u_validator = ListValidator [''debug'', ''info'', ''warning'', ''error''],
      u_callbacks = [(''log'', quiet_listener), (''ui'', quiet_listener)]\<rparr>"



definition fresh_boolean_setting :: SingleSetting where
  "fresh_boolean_setting =
     \<lparr>u_name = ''use_index'', u_value = PNone, u_validator = BooleanValidator, u_callbacks = []\<rparr>"

text \<open>
  The settings with their default values (python/settings.py) and an index lookup that
  raises \<open>KeyError\<close>; the same with wrapping switched off.
\<close>

definition default_env :: Env where
  "default_env =
     \<lparr>use_index = True, allow_multiple_words = True, expand_first = True, wrap_buffer = True,
      wrap_line = True, case_sensitive = False, get_index = (\<lambda>i. Inl KeyError)\<rparr>"

definition no_wrap_env :: Env where
  "no_wrap_env = default_env\<lparr>wrap_buffer := False, wrap_line := False\<rparr>"


text \<open>
  A buffer of two lines, \<open>foo bar\<close> followed by two blanks, and \<open>baz\<close>. Asked for the
  words within a span, the host answers with those of the three words that lie in it.
\<close>

definition two_lines :: string where
  "two_lines = ''foo bar  '' @ [newline] @ ''baz''"

definition words_within :: "Region list \<Rightarrow> string \<Rightarrow> FindFlags set \<Rightarrow> Region \<Rightarrow> Region list" where
  "words_within ws rx fl within =
     (if rx = word_regex then
        filter (\<lambda>w. region_begin within \<le> region_begin w \<and> region_end w \<le> region_end within) ws
      else [])"

definition two_lines_view :: "Region list \<Rightarrow> View" where
  "two_lines_view s =
     text_view two_lines s (\<lambda>rx pt fl. Region (- 1) (- 1))
       (words_within [Region 0 3, Region 4 7, Region 10 13]) (\<lambda>r. r)"

text \<open>A buffer whose first line is blank.\<close>

definition blank_line_view :: "Region list \<Rightarrow> View" where
  "blank_line_view s = quiet_view (''  '' @ [newline] @ ''baz'') s"

text \<open>What is observed of a run: the warnings and the searches in its log, and the selection it leaves.\<close>

definition searches :: "event list \<Rightarrow> event list" where
  "searches l =
     filter (\<lambda>e. e = Log DEBUG ''Searching region {line_region} ('{view.substr(line_region)}').'') l"

definition selection_after :: "event list \<times> (error + View) \<Rightarrow> error + Region list" where
  "selection_after res = (case snd res of Inl e \<Rightarrow> Inl e | Inr view \<Rightarrow> Inr (sel view))"

text \<open>Another buffer: the line \<open>foo\<close> and an empty last line.\<close>

definition empty_last_line_view :: "Region list \<Rightarrow> View" where
  "empty_last_line_view s =
     text_view (''foo'' @ [newline]) s (\<lambda>rx pt fl. Region (- 1) (- 1))
       (words_within [Region 0 3]) (\<lambda>r. r)"



section \<open>The host's boundary search on a text buffer\<close>

lemma find_upto_SomeD:
  "List.find P [lo..hi] = Some x \<Longrightarrow> lo \<le> x \<and> x \<le> hi \<and> P x \<and> (\<forall>y. lo \<le> y \<and> y < x \<longrightarrow> \<not> P y)"
proof (induction lo hi rule: upto.induct)
  case (1 i j)
  show ?case
  proof (cases "i \<le> j")
    case False
    with "1.prems" show ?thesis by (simp add: upto.simps)
  next
    case True
    note le = this
    show ?thesis
    proof (cases "P i")
      case True
      with le "1.prems" have "x = i" by (simp add: upto.simps [of i j])
      with True le show ?thesis by auto
    next
      case False
      with le "1.prems" have "List.find P [i + 1..j] = Some x" by (simp add: upto.simps [of i j])
      from "1.IH" [OF le this] have ih: "i + 1 \<le> x" "x \<le> j" "P x" "\<forall>y. i + 1 \<le> y \<and> y < x \<longrightarrow> \<not> P y"
        by simp_all
      have "\<not> P y" if "i \<le> y" "y < x" for y
      proof (cases "y = i")
        case True with False show ?thesis by simp
      next
        case False
        with that have "i + 1 \<le> y" by simp
        with ih(4) that show ?thesis by simp
      qed
      with ih show ?thesis by simp
    qed
  qed
qed

lemma find_upto_NoneD:
  "List.find P [lo..hi] = None \<Longrightarrow> lo \<le> y \<Longrightarrow> y \<le> hi \<Longrightarrow> \<not> P y"
  by (simp add: find_None_iff)

lemma fwd_cases:
  assumes "q = find_by_class_text t p True C"
  obtains (found) "p < q" "0 \<le> q" "q \<le> int (length t)" "classify_text t q \<inter> C \<noteq> {}"
      "\<forall>y. 0 \<le> y \<and> y < q \<and> p < y \<longrightarrow> classify_text t y \<inter> C = {}"
  | (none) "q = int (length t)"
      "\<forall>y. 0 \<le> y \<and> y \<le> int (length t) \<and> p < y \<longrightarrow> classify_text t y \<inter> C = {}"
proof (cases "List.find (\<lambda>q. p < q \<and> classify_text t q \<inter> C \<noteq> {}) [0..int (length t)]")
  case None
  have "q = int (length t)" using assms None by (simp add: find_by_class_text_def)
  moreover have "\<forall>y. 0 \<le> y \<and> y \<le> int (length t) \<and> p < y \<longrightarrow> classify_text t y \<inter> C = {}"
    using find_upto_NoneD [OF None] by blast
  ultimately show ?thesis by (rule none)
next
  case (Some x)
  have qx: "q = x" using assms Some by (simp add: find_by_class_text_def)
  from find_upto_SomeD [OF Some]
  have "p < x" "0 \<le> x" "x \<le> int (length t)" "classify_text t x \<inter> C \<noteq> {}"
    "\<forall>y. 0 \<le> y \<and> y < x \<and> p < y \<longrightarrow> classify_text t y \<inter> C = {}"
    by auto
  with qx show ?thesis using found by blast
qed

lemma fwd_le: "find_by_class_text t p True C \<le> int (length t)"
  by (rule fwd_cases [OF refl, of p t C]) simp_all

lemma fwd_ge: "p \<le> int (length t) \<Longrightarrow> p \<le> find_by_class_text t p True C"
  by (rule fwd_cases [OF refl, of p t C]) simp_all

lemma fwd_gt: "p < int (length t) \<Longrightarrow> p < find_by_class_text t p True C"
  by (rule fwd_cases [OF refl, of p t C]) simp_all

lemma fwd_mono:
  assumes "C \<subseteq> D"
  shows "find_by_class_text t p True D \<le> find_by_class_text t p True C"
proof (rule fwd_cases [OF refl, of p t C])
  assume "find_by_class_text t p True C = int (length t)"
  then show ?thesis by (simp add: fwd_le)
next
  let ?q = "find_by_class_text t p True C"
  assume q: "p < ?q" "0 \<le> ?q" "?q \<le> int (length t)" "classify_text t ?q \<inter> C \<noteq> {}"
  with assms have m: "classify_text t ?q \<inter> D \<noteq> {}" by blast
  show ?thesis
  proof (rule fwd_cases [OF refl, of p t D])
    assume "find_by_class_text t p True D = int (length t)"
      "\<forall>y. 0 \<le> y \<and> y \<le> int (length t) \<and> p < y \<longrightarrow> classify_text t y \<inter> D = {}"
    with q m show ?thesis by blast
  next
    assume "\<forall>y. 0 \<le> y \<and> y < find_by_class_text t p True D \<and> p < y \<longrightarrow> classify_text t y \<inter> D = {}"
    with q m show ?thesis by (meson not_le)
  qed
qed

lemma ws_word_at: "WORD_START \<in> classify_text t p \<longleftrightarrow> word_at t p \<and> \<not> word_at t (p - 1)"
  by (simp add: classify_text_def)

lemma we_word_at: "WORD_END \<in> classify_text t p \<longleftrightarrow> word_at t (p - 1) \<and> \<not> word_at t p"
  by (simp add: classify_text_def)

lemma ws_lt_length: "WORD_START \<in> classify_text t p \<Longrightarrow> p < int (length t)"
  by (simp add: ws_word_at word_at_def)

lemma ws_fwd_not_ws:
  assumes ws: "WORD_START \<in> classify_text t p"
  shows "WORD_START \<notin> classify_text t (find_by_class_text t p True {WORD_START, WORD_END})"
proof (rule fwd_cases [OF refl, of p t "{WORD_START, WORD_END}"])
  assume "find_by_class_text t p True {WORD_START, WORD_END} = int (length t)"
  then show ?thesis by (simp add: ws_word_at word_at_def)
next
  let ?q = "find_by_class_text t p True {WORD_START, WORD_END}"
  assume q: "p < ?q" "0 \<le> ?q"
    and least: "\<forall>y. 0 \<le> y \<and> y < ?q \<and> p < y \<longrightarrow> classify_text t y \<inter> {WORD_START, WORD_END} = {}"
  from ws have wp: "word_at t p" by (simp add: ws_word_at)
  then have p0: "0 \<le> p" by (simp add: word_at_def)
  have run: "y < ?q \<longrightarrow> word_at t y" if "p \<le> y" for y
    using that
  proof (induction y rule: int_ge_induct)
    case base
    from wp show ?case by simp
  next
    case (step i)
    show ?case
    proof
      assume lt: "i + 1 < ?q"
      with step have wi: "word_at t i" by simp
      show "word_at t (i + 1)"
      proof (rule ccontr)
        assume "\<not> word_at t (i + 1)"
        with wi have "WORD_END \<in> classify_text t (i + 1)" by (simp add: we_word_at)
        moreover from least lt step(1) p0
        have "classify_text t (i + 1) \<inter> {WORD_START, WORD_END} = {}" by simp
        ultimately show False by blast
      qed
    qed
  qed
  from q have "p \<le> ?q - 1" by simp
  from run [OF this] have "word_at t (?q - 1)" by simp
  then show ?thesis by (simp add: ws_word_at)
qed

section \<open>The region classifier\<close>

lemma text_view_sel [simp]:
  "classify (text_view t s f fa w) = classify_text t"
  "find_by_class (text_view t s f fa w) = find_by_class_text t"
  by (simp_all add: text_view_def)

lemma no_word_text:
  "is_not_part_of_any_word (text_view t s f fa w) r \<longleftrightarrow>
     (WORD_START \<in> classify_text t (region_begin r) \<and> region_empty r) \<or>
     (WORD_START \<in> classify_text t (find_by_class_text t (region_begin r) True {WORD_START, WORD_END}) \<and>
      region_end r \<le> find_by_class_text t (region_begin r) True {WORD_START, WORD_END})"
  by (auto simp: is_not_part_of_any_word_def Let_def)

lemma single_text:
  "is_single_complete_word (text_view t s f fa w) r \<longleftrightarrow>
     WORD_START \<in> classify_text t (region_begin r) \<and>
     find_by_class_text t (region_begin r) True {WORD_END} = region_end r"
  by (auto simp: is_single_complete_word_def Let_def)

lemma multiple_any:
  "is_multiple_complete_words v r \<longleftrightarrow>
     WORD_START \<in> classify v (region_begin r) \<and> WORD_END \<in> classify v (region_end r) \<and>
     \<not> is_single_complete_word v r"
  by (auto simp: is_multiple_complete_words_def Let_def)

lemma part_text:
  "is_part_of_multiple_words (text_view t s f fa w) r \<longleftrightarrow>
     find_by_class_text t (find_by_class_text t (region_begin r) True {WORD_END}) True {WORD_START} + 1
       \<le> region_end r"
  by (auto simp: is_part_of_multiple_words_def Let_def)

lemma empty_begin_end: "region_empty r \<Longrightarrow> region_end r = region_begin r"
  by (simp add: region_empty_def region_end_def region_begin_def)

lemma no_word_at_start:
  assumes "WORD_START \<in> classify_text t (region_begin r)"
    and "is_not_part_of_any_word (text_view t s f fa w) r"
  shows "region_empty r"
  using assms ws_fwd_not_ws [OF assms(1)] by (auto simp: no_word_text)

lemma not_ws_and_we: "\<not> (WORD_START \<in> classify_text t p \<and> WORD_END \<in> classify_text t p)"
  by (simp add: ws_word_at we_word_at)

lemma excl_no_word_single:
  "\<not> (is_not_part_of_any_word (text_view t s f fa w) r \<and> is_single_complete_word (text_view t s f fa w) r)"
proof
  assume h: "is_not_part_of_any_word (text_view t s f fa w) r \<and> is_single_complete_word (text_view t s f fa w) r"
  then have ws: "WORD_START \<in> classify_text t (region_begin r)"
    and e: "find_by_class_text t (region_begin r) True {WORD_END} = region_end r"
    by (simp_all add: single_text)
  from h have "is_not_part_of_any_word (text_view t s f fa w) r" by simp
  from no_word_at_start [OF ws this] have "region_end r = region_begin r" by (simp add: empty_begin_end)
  with e fwd_gt [OF ws_lt_length [OF ws], of "{WORD_END}"] show False by simp
qed

lemma excl_no_word_multiple:
  "\<not> (is_not_part_of_any_word (text_view t s f fa w) r \<and> is_multiple_complete_words (text_view t s f fa w) r)"
proof
  assume h: "is_not_part_of_any_word (text_view t s f fa w) r \<and> is_multiple_complete_words (text_view t s f fa w) r"
  then have ws: "WORD_START \<in> classify_text t (region_begin r)"
    and we: "WORD_END \<in> classify_text t (region_end r)"
    by (simp_all add: multiple_any)
  from h have "is_not_part_of_any_word (text_view t s f fa w) r" by simp
  from no_word_at_start [OF ws this] have "region_end r = region_begin r" by (simp add: empty_begin_end)
  with ws we not_ws_and_we show False by simp
qed

lemma excl_single_multiple:
  "\<not> (is_single_complete_word v r \<and> is_multiple_complete_words v r)"
  by (simp add: multiple_any)

lemma excl_single_part:
  "\<not> (is_single_complete_word (text_view t s f fa w) r \<and> is_part_of_multiple_words (text_view t s f fa w) r)"
proof
  assume h: "is_single_complete_word (text_view t s f fa w) r \<and> is_part_of_multiple_words (text_view t s f fa w) r"
  let ?e = "find_by_class_text t (region_begin r) True {WORD_END}"
  from h have e: "?e = region_end r" by (simp add: single_text)
  from h have p: "find_by_class_text t ?e True {WORD_START} + 1 \<le> region_end r"
    by (simp only: part_text)
  from fwd_ge [OF fwd_le, of t "region_begin r" "{WORD_END}" "{WORD_START}"] e p show False by simp
qed

lemma excl_no_word_part:
  "\<not> (is_not_part_of_any_word (text_view t s f fa w) r \<and> is_part_of_multiple_words (text_view t s f fa w) r)"
proof
  assume h: "is_not_part_of_any_word (text_view t s f fa w) r \<and> is_part_of_multiple_words (text_view t s f fa w) r"
  let ?e = "find_by_class_text t (region_begin r) True {WORD_END}"
  let ?x = "find_by_class_text t (region_begin r) True {WORD_START, WORD_END}"
  from h have p: "find_by_class_text t ?e True {WORD_START} + 1 \<le> region_end r"
    by (simp add: part_text)
  have sp: "?e \<le> find_by_class_text t ?e True {WORD_START}"
    by (rule fwd_ge [OF fwd_le])
  from h consider (a) "WORD_START \<in> classify_text t (region_begin r)" "region_empty r"
    | (b) "region_end r \<le> ?x"
    by (auto simp: no_word_text)
  then show False
  proof cases
    case a
    from fwd_gt [OF ws_lt_length [OF a(1)], of "{WORD_END}"] a(2) sp p show False
      by (simp add: empty_begin_end)
  next
    case b
    have "?x \<le> ?e" by (rule fwd_mono) simp
    with b sp p show False by simp
  qed
qed


text \<open>
  C1 (as amended). The four predicates of the region classifier do not cover every region:
  a region inside a single word satisfies none of them, and the navigation policy gives such
  a region a fifth treatment. On every buffer and for every region, no-word,
  single-complete-word and multiple-complete-words exclude one another, and no-word and
  single-complete-word each exclude part-of-multiple-words.
\<close>

theorem classifier_exclusive:
  "\<not> (is_not_part_of_any_word (text_view t s f fa w) r \<and> is_single_complete_word (text_view t s f fa w) r) \<and>
   \<not> (is_not_part_of_any_word (text_view t s f fa w) r \<and> is_multiple_complete_words (text_view t s f fa w) r) \<and>
   \<not> (is_single_complete_word (text_view t s f fa w) r \<and> is_multiple_complete_words (text_view t s f fa w) r) \<and>
   \<not> (is_not_part_of_any_word (text_view t s f fa w) r \<and> is_part_of_multiple_words (text_view t s f fa w) r) \<and>
   \<not> (is_single_complete_word (text_view t s f fa w) r \<and> is_part_of_multiple_words (text_view t s f fa w) r)"
  using excl_no_word_single [of t s f fa w r] excl_no_word_multiple [of t s f fa w r]
    excl_single_multiple [of "text_view t s f fa w" r] excl_no_word_part [of t s f fa w r]
    excl_single_part [of t s f fa w r]
  by blast

text \<open>
  The word \<open>flagpole\<close> selected in \<open>flagpole banana\<close> is a single complete word and
  nothing else.
\<close>

theorem classifier_exclusive_witness:
  "is_single_complete_word (quiet_view ''flagpole banana'' []) (Region 0 8) \<and>
   \<not> is_not_part_of_any_word (quiet_view ''flagpole banana'' []) (Region 0 8) \<and>
   \<not> is_multiple_complete_words (quiet_view ''flagpole banana'' []) (Region 0 8) \<and>
   \<not> is_part_of_multiple_words (quiet_view ''flagpole banana'' []) (Region 0 8)"
proof -
  have single: "is_single_complete_word (quiet_view ''flagpole banana'' []) (Region 0 8)"
    by code_simp
  from single
    classifier_exclusive [of "''flagpole banana''" "[]" "\<lambda>rx pt fl. Region (- 1) (- 1)"
      "\<lambda>rx fl within. []" "\<lambda>r. r" "Region 0 8"]
  show ?thesis unfolding quiet_view_def by blast
qed

text \<open>
  C1 as stated fails: the region \<open>lag\<close> inside \<open>flagpole\<close> is in none of the four
  categories.
\<close>

theorem classifier_not_exhaustive:
  "\<not> is_not_part_of_any_word (quiet_view ''flagpole banana'' []) (Region 1 4) \<and>
   \<not> is_single_complete_word (quiet_view ''flagpole banana'' []) (Region 1 4) \<and>
   \<not> is_multiple_complete_words (quiet_view ''flagpole banana'' []) (Region 1 4) \<and>
   \<not> is_part_of_multiple_words (quiet_view ''flagpole banana'' []) (Region 1 4)"
  by code_simp

text \<open>
  The whole of \<open>flagpole banana\<close> is both multiple-complete-words and
  part-of-multiple-words, although the documentation of \<open>is_part_of_multiple_words\<close>
  lists it among the regions for which the function is false.
\<close>

lemma multiple_and_part_overlap:
  "is_multiple_complete_words (quiet_view ''flagpole banana'' []) (Region 0 15) \<and>
   is_part_of_multiple_words (quiet_view ''flagpole banana'' []) (Region 0 15)"
  by code_simp

section \<open>Validators\<close>

lemma range_validate_int:
  "validate lower (IntegerRangeValidator lo hi) (PInt v) =
     Inr (if lo \<le> v \<and> v \<le> hi then Some (PInt v) else None)"
  by (simp add: range_validate_def)

lemma IntegerRangeValidator_init_any: "IntegerRangeValidator_init mn mx = Inl NameError"
  by (simp add: IntegerRangeValidator_init_def lookup_name_def)

text \<open>
  C9. An integer-range validator with the bounds 0 and 10 should accept exactly the values
  from 0 to 10. The method \<open>validate\<close> does so (\<open>range_validate_int\<close>), but no such
  validator comes into being: its constructor raises \<open>NameError\<close>.
\<close>

theorem IntegerRangeValidator_init_fails: "IntegerRangeValidator_init 0 10 = Inl NameError"
  by (simp add: IntegerRangeValidator_init_def lookup_name_def)






section \<open>Settings\<close>

text \<open>
  C3 (as amended). \<open>_update\<close> compares the raw and the stored value as strings in lower
  case. For a raw value that the validator rejects (returns \<open>None\<close>): if the two differ
  in that comparison, \<open>_update\<close> raises \<open>ValueError\<close>, the setting is as before, and
  there is no event (no listener was called); if they agree in it, \<open>_update\<close> does
  nothing at all and raises nothing.
\<close>

theorem update_rejected:
  assumes "validate lower (u_validator s) v = Inr None"
  shows "(lower (py_str v) \<noteq> lower (py_str (u_value s)) \<longrightarrow>
            u_update lower s v = ([], Some ValueError, s)) \<and>
         (lower (py_str v) = lower (py_str (u_value s)) \<longrightarrow>
            u_update lower s v = ([], None, s))"
  using assms by (simp add: u_update_def)

text \<open>The log level \<open>verbose\<close> is rejected with an error; \<open>NONE\<close> for a fresh boolean setting is passed over.\<close>

theorem update_rejected_witness:
  "validate ascii_lower (u_validator log_level_setting) (PStr ''verbose'') = Inr None \<and>
   ascii_lower (py_str (PStr ''verbose'')) \<noteq> ascii_lower (py_str (u_value log_level_setting)) \<and>
   u_update ascii_lower log_level_setting (PStr ''verbose'') = ([], Some ValueError, log_level_setting) \<and>
   validate ascii_lower (u_validator fresh_boolean_setting) (PStr ''NONE'') = Inr None \<and>
   ascii_lower (py_str (PStr ''NONE'')) = ascii_lower (py_str (u_value fresh_boolean_setting)) \<and>
   u_update ascii_lower fresh_boolean_setting (PStr ''NONE'') = ([], None, fresh_boolean_setting)"
proof -
  have r1: "validate ascii_lower (u_validator log_level_setting) (PStr ''verbose'') = Inr None"
    by code_simp
  have d1: "ascii_lower (py_str (PStr ''verbose'')) \<noteq> ascii_lower (py_str (u_value log_level_setting))"
    by code_simp
  have r2: "validate ascii_lower (u_validator fresh_boolean_setting) (PStr ''NONE'') = Inr None"
    by code_simp
  have d2: "ascii_lower (py_str (PStr ''NONE'')) = ascii_lower (py_str (u_value fresh_boolean_setting))"
    by code_simp
  from update_rejected [OF r1] update_rejected [OF r2] r1 d1 r2 d2 show ?thesis by simp
qed

text \<open>
  C3 as stated fails: for a boolean setting under construction (stored value \<open>None\<close>) the
  raw value \<open>NONE\<close> is rejected by the validator and its string form differs from
  \<open>None\<close>, yet the update raises nothing; the constructor returns a setting without a
  value.
\<close>

theorem update_rejected_but_silent:
  "validate ascii_lower (u_validator fresh_boolean_setting) (PStr ''NONE'') = Inr None \<and>
   py_str (PStr ''NONE'') \<noteq> py_str (u_value fresh_boolean_setting) \<and>
   u_update ascii_lower fresh_boolean_setting (PStr ''NONE'') = ([], None, fresh_boolean_setting) \<and>
   SingleSetting_init ascii_lower ''use_index'' (PStr ''NONE'') BooleanValidator
     = ([], None, fresh_boolean_setting)"
proof -
  have "validate ascii_lower (u_validator fresh_boolean_setting) (PStr ''NONE'') = Inr None"
    by code_simp
  moreover have "py_str (PStr ''NONE'') \<noteq> py_str (u_value fresh_boolean_setting)"
    by (simp add: fresh_boolean_setting_def)
  moreover have "ascii_lower (py_str (PStr ''NONE'')) = ascii_lower (py_str (u_value fresh_boolean_setting))"
    by code_simp
  then have "u_update ascii_lower fresh_boolean_setting (PStr ''NONE'') = ([], None, fresh_boolean_setting)"
    by (simp add: u_update_def)
  moreover from this
  have "SingleSetting_init ascii_lower ''use_index'' (PStr ''NONE'') BooleanValidator
     = ([], None, fresh_boolean_setting)"
    by (simp add: SingleSetting_init_def fresh_boolean_setting_def)
  ultimately show ?thesis by simp
qed

text \<open>
  A validator that raises on the raw value (a list validator given a number, say) makes
  \<open>_update\<close> raise that exception; the setting and the listeners are untouched as well.
\<close>

lemma update_validator_raises:
  assumes "validate lower (u_validator s) v = Inl e"
  shows "\<exists>r. u_update lower s v = ([], r, s)"
  using assms by (simp add: u_update_def)






text \<open>
  C8. Registering a listener under a tag that the setting already has raises
  \<open>ValueError\<close> and leaves the setting, its listeners included, as it was; so does
  removing a tag that the setting does not have.
\<close>

theorem on_change_errors:
  "(tag \<in> fst ` set (u_callbacks s) \<longrightarrow> add_on_change s tag cb = ([], Some ValueError, s)) \<and>
   (tag \<notin> fst ` set (u_callbacks s) \<longrightarrow> clear_on_change s tag = ([], Some ValueError, s))"
proof (intro conjI impI)
  assume "tag \<in> fst ` set (u_callbacks s)"
  then obtain v where "map_of (u_callbacks s) tag = Some v"
    by (metis map_of_eq_None_iff not_Some_eq)
  then show "add_on_change s tag cb = ([], Some ValueError, s)"
    by (simp add: add_on_change_def)
next
  assume "tag \<notin> fst ` set (u_callbacks s)"
  then have "map_of (u_callbacks s) tag = None" by (simp add: map_of_eq_None_iff)
  then show "clear_on_change s tag = ([], Some ValueError, s)"
    by (simp add: clear_on_change_def)
qed

theorem on_change_errors_witness:
  "''log'' \<in> fst ` set (u_callbacks log_level_setting) \<and>
   add_on_change log_level_setting ''log'' quiet_listener = ([], Some ValueError, log_level_setting) \<and>
   ''other'' \<notin> fst ` set (u_callbacks log_level_setting) \<and>
   clear_on_change log_level_setting ''other'' = ([], Some ValueError, log_level_setting)"
  using on_change_errors [of "''log''" log_level_setting quiet_listener]
    on_change_errors [of "''other''" log_level_setting quiet_listener]
  by (simp add: log_level_setting_def)

section \<open>Navigation\<close>

lemma multiple_selection:
  assumes "1 < length (sel v)"
  shows "u_get_region_of_word_closest_to_selection env v fwd =
           ([Log WARNING ''Multiple regions selected - doing nothing.''], Inr None)"
    and "u_get_region_of_closest_word_in_line env v fwd =
           ([Log WARNING ''Multiple regions selected - doing nothing.''], Inr None)"
  using assms
  by (simp_all add: u_get_region_of_word_closest_to_selection_def
      u_get_region_of_closest_word_in_line_def is_multiple_regions_selected_def)

lemma multiple_navigate:
  assumes "1 < length (sel v)"
  shows "u_navigate env v fwd = ([Log WARNING ''Multiple regions selected - doing nothing.''], Inr v)"
    and "u_navigate_in_line env v fwd = ([Log WARNING ''Multiple regions selected - doing nothing.''], Inr v)"
  by (simp_all add: u_navigate_def u_navigate_in_line_def apply_region_def
      multiple_selection [OF assms])

text \<open>
  C5. With more than one region selected, same-word and in-line navigation (in either
  direction) log the one warning and return the view as it was, without raising; each of
  the four commands leaves the view unchanged and has exactly that warning in its log.
\<close>

theorem multiple_regions_noop:
  assumes "1 < length (sel v)"
  shows "u_navigate env v fwd = ([Log WARNING ''Multiple regions selected - doing nothing.''], Inr v) \<and>
         u_navigate_in_line env v fwd = ([Log WARNING ''Multiple regions selected - doing nothing.''], Inr v) \<and>
         (\<forall>cmd \<in> {WordNavigatePreviousCommand, WordNavigateNextCommand,
                    WordNavigatePreviousInLineCommand, WordNavigateNextInLineCommand}.
            snd (cmd env v) = Inr v \<and>
            warnings (fst (cmd env v)) = [Log WARNING ''Multiple regions selected - doing nothing.''])"
  by (simp add: multiple_navigate [OF assms] WordNavigatePreviousCommand_def
      WordNavigateNextCommand_def WordNavigatePreviousInLineCommand_def
      WordNavigateNextInLineCommand_def command_run_def navigate_backward_def
      navigate_forward_def navigate_backward_in_line_def navigate_forward_in_line_def
      warnings_def)

text \<open>Both words of \<open>foo bar\<close> selected.\<close>

theorem multiple_regions_noop_witness:
  "1 < length (sel (quiet_view ''foo bar'' [Region 0 3, Region 4 7])) \<and>
   selection_after (WordNavigateNextCommand default_env (quiet_view ''foo bar'' [Region 0 3, Region 4 7]))
     = Inr [Region 0 3, Region 4 7] \<and>
   length (warnings (fst (WordNavigateNextCommand default_env (quiet_view ''foo bar'' [Region 0 3, Region 4 7])))) = 1 \<and>
   selection_after (WordNavigatePreviousInLineCommand default_env (quiet_view ''foo bar'' [Region 0 3, Region 4 7]))
     = Inr [Region 0 3, Region 4 7] \<and>
   length (warnings (fst (WordNavigatePreviousInLineCommand default_env (quiet_view ''foo bar'' [Region 0 3, Region 4 7])))) = 1"
proof -
  have s: "sel (quiet_view ''foo bar'' [Region 0 3, Region 4 7]) = [Region 0 3, Region 4 7]"
    by (simp add: quiet_view_def text_view_def)
  then have m: "1 < length (sel (quiet_view ''foo bar'' [Region 0 3, Region 4 7]))" by simp
  from multiple_regions_noop [OF m, of default_env] s m show ?thesis
    by (simp add: selection_after_def)
qed


lemma region_single: "sel v = [r] \<Longrightarrow> get_single_selected_region v = Inr r"
  by (simp add: get_single_selected_region_def is_multiple_regions_selected_def
      get_first_selected_region_def)

lemma select_single:
  "sel v = [r] \<Longrightarrow> \<exists>v'. select_and_zoom_to_region v reg = Inr v' \<and> sel v' = [reg]"
  by (simp add: select_and_zoom_to_region_def Let_def)


subsection \<open>The word locator on a text buffer\<close>




lemma word_at_bounds: "word_at t p \<Longrightarrow> 0 \<le> p \<and> p < int (length t)"
  by (simp add: word_at_def)






lemma text_view_sel2 [simp]:
  "expand_by_class (text_view t s f fa w) = expand_by_class_text t"
  "rowcol (text_view t s f fa w) = rowcol_text t"
  "sel (text_view t s f fa w) = s"
  by (simp_all add: text_view_def)
























text \<open>
  Backwards with no word before the caret, the locator returns the empty region at the
  start of the buffer.
\<close>

lemma no_word_backward_without_word:
  "is_not_part_of_any_word (quiet_view ''  foo'' [Region 1 1]) (Region 1 1) \<and>
   selection_after (navigate_backward default_env (quiet_view ''  foo'' [Region 1 1])) = Inr [Region 0 0]"
  by code_simp

lemma same_word_miss:
  assumes "region_empty (find v (same_word_regex (substr v w))
             (if fwd then region_end w else region_begin w)
             ((if \<not> fwd then {REVERSE} else {}) \<union> (if \<not> cs then {IGNORECASE} else {})
              \<union> (if wrap then {WRAP} else {})))"
  shows "get_region_of_closet_same_word v w fwd wrap cs = ([], None)"
  using assms by (simp add: get_region_of_closet_same_word_def Let_def)

text \<open>
  C6. Let one region be selected, let the policy go on to search for the word region
  \<open>w\<close>, let the index be out of play (not used, not there, or \<open>KeyError\<close>), and let
  the host find no match (its answer is an empty region), with or without wrapping. Then
  the search returns \<open>None\<close> and raises nothing, and navigation returns the view as it
  was.
\<close>

theorem search_miss_keeps_selection:
  assumes single: "sel v = [r]"
    and pivot: "choose_word_region env v r fwd = (l, Inr (Pivot w))"
    and index: "\<not> use_index env \<or> get_index env (buffer_id v) = Inl KeyError
                \<or> get_index env (buffer_id v) = Inr None"
    and miss: "region_empty (find v (same_word_regex (substr v w))
             (if fwd then region_end w else region_begin w)
             ((if \<not> fwd then {REVERSE} else {}) \<union> (if \<not> case_sensitive env then {IGNORECASE} else {})
              \<union> (if wrap_buffer env then {WRAP} else {})))"
  shows "get_region_of_closet_same_word v w fwd (wrap_buffer env) (case_sensitive env) = ([], None) \<and>
         snd (u_get_region_of_word_closest_to_selection env v fwd) = Inr None \<and>
         snd (u_navigate env v fwd) = Inr v"
proof -
  have s: "get_region_of_closet_same_word v w fwd (wrap_buffer env) (case_sensitive env) = ([], None)"
    by (rule same_word_miss [OF miss])
  have f: "snd (find_from_word_region env v w fwd) = Inr None"
    using index s by (auto simp: find_from_word_region_def Let_def)
  have g: "snd (u_get_region_of_word_closest_to_selection env v fwd) = Inr None"
    using single f
    by (simp add: u_get_region_of_word_closest_to_selection_def is_multiple_regions_selected_def
        region_single u_get_region_of_word_closest_to_region_def pivot split_beta)
  then have "snd (u_navigate env v fwd) = Inr v"
    by (cases "u_get_region_of_word_closest_to_selection env v fwd")
      (simp add: u_navigate_def apply_region_def)
  with s g show ?thesis by simp
qed

text \<open>
  \<open>foo\<close> selected in \<open>foo bar\<close>, searching forwards without wrapping: there is no
  further \<open>foo\<close>.
\<close>

theorem search_miss_keeps_selection_witness:
  "sel (quiet_view ''foo bar'' [Region 0 3]) = [Region 0 3] \<and>
   snd (choose_word_region no_wrap_env (quiet_view ''foo bar'' [Region 0 3]) (Region 0 3) True)
     = Inr (Pivot (Region 0 3)) \<and>
   get_index no_wrap_env (buffer_id (quiet_view ''foo bar'' [Region 0 3])) = Inl KeyError \<and>
   get_region_of_closet_same_word (quiet_view ''foo bar'' [Region 0 3]) (Region 0 3) True False False = ([], None) \<and>
   selection_after (u_navigate no_wrap_env (quiet_view ''foo bar'' [Region 0 3]) True) = Inr [Region 0 3]"
proof -
  let ?v = "quiet_view ''foo bar'' [Region 0 3]"
  have s: "sel ?v = [Region 0 3]" by (simp add: quiet_view_def text_view_def)
  have p: "choose_word_region no_wrap_env ?v (Region 0 3) True =
      ([Log DEBUG ''Single word '{view.substr(region)}' selected - finding closest.''],
       Inr (Pivot (Region 0 3)))"
    by code_simp
  have i: "\<not> use_index no_wrap_env \<or> get_index no_wrap_env (buffer_id ?v) = Inl KeyError
      \<or> get_index no_wrap_env (buffer_id ?v) = Inr None"
    by (simp add: no_wrap_env_def default_env_def)
  have k: "get_index no_wrap_env (buffer_id ?v) = Inl KeyError"
    by (simp add: no_wrap_env_def default_env_def)
  have w: "wrap_buffer no_wrap_env = False" "case_sensitive no_wrap_env = False"
    by (simp_all add: no_wrap_env_def default_env_def)
  have m: "region_empty (find ?v (same_word_regex (substr ?v (Region 0 3)))
             (if True then region_end (Region 0 3) else region_begin (Region 0 3))
             ((if \<not> True then {REVERSE} else {})
              \<union> (if \<not> case_sensitive no_wrap_env then {IGNORECASE} else {})
              \<union> (if wrap_buffer no_wrap_env then {WRAP} else {})))"
    by (simp add: quiet_view_def text_view_def region_empty_def)
  from search_miss_keeps_selection [OF s p i m] s p k w show ?thesis by (simp add: selection_after_def)
qed

lemma search_entry:
  "searches (fst (u_get_region_of_closet_word_in_line v fwd line col)) =
     fst (u_get_region_of_closet_word_in_line v fwd line col)"
  "length (fst (u_get_region_of_closet_word_in_line v fwd line col)) = 1"
  "snd (u_get_region_of_closet_word_in_line v fwd line col) =
     find_all v word_regex (if fwd then {} else {REVERSE})
       (if fwd then Region (text_point v line col) (text_point v (line + 1) 0)
        else Region (text_point v line 0) (text_point v line col))"
  by (auto simp: u_get_region_of_closet_word_in_line_def searches_def Let_def)

lemma searches_append: "searches (xs @ ys) = searches xs @ searches ys"
  by (simp add: searches_def)

lemma searches_choose: "searches (fst (choose_region fwd regs)) = []"
  by (simp add: choose_region_def searches_def Let_def)

lemma searches_other:
  "searches (Log DEBUG ''Finding closest word in line from {line + 1}:{col}.'' # xs) = searches xs"
  "searches (Log DEBUG ''No region found.'' # xs) = searches xs"
  "searches [] = []"
  by (simp_all add: searches_def)

text \<open>
  Wrapping enabled, first search of the line empty. Forwards the new column is 0,
  backwards it is the column of the point before the start of the next line. If the caret's
  column is the new column already, the result is \<open>None\<close> after that one search;
  otherwise the line is searched once more, from the new column, the result is chosen from
  what this second search finds, and the log has exactly two searches.
\<close>

lemma in_line_retry_structure:
  fixes v :: View and pt :: int and fwd :: bool
  defines "line \<equiv> fst (rowcol v pt)" and "col \<equiv> snd (rowcol v pt)"
  defines "rc \<equiv> rowcol v (text_point v (line + 1) 0 - 1)"
  defines "line' \<equiv> (if fwd then line else fst rc)" and "new_col \<equiv> (if fwd then 0 else snd rc)"
  defines "flags \<equiv> (if fwd then {} else {REVERSE})"
  defines "retry \<equiv> (if fwd then Region (text_point v line' new_col) (text_point v (line' + 1) 0)
                      else Region (text_point v line' 0) (text_point v line' new_col))"
  assumes first_empty:
    "find_all v word_regex flags
       (if fwd then Region (text_point v line col) (text_point v (line + 1) 0)
        else Region (text_point v line 0) (text_point v line col)) = []"
  shows "(col = new_col \<longrightarrow>
            snd (get_region_of_closest_word_in_line v pt fwd True) = None \<and>
            length (searches (fst (get_region_of_closest_word_in_line v pt fwd True))) = 1) \<and>
         (col \<noteq> new_col \<longrightarrow>
            snd (get_region_of_closest_word_in_line v pt fwd True) =
              snd (choose_region fwd (find_all v word_regex flags retry)) \<and>
            length (searches (fst (get_region_of_closest_word_in_line v pt fwd True))) = 2)"
proof -
  let ?H = "u_get_region_of_closet_word_in_line v fwd"
  let ?R = "get_region_of_closest_word_in_line v pt fwd True"
  let ?l2 = "Log DEBUG ''Finding closest word in line from {line + 1}:{col}.'' # fst (?H line col)
             @ [Log DEBUG ''No region found.'']"
  have e: "snd (?H line col) = []"
    using first_empty by (simp add: search_entry(3) flags_def)
  have r: "snd (?H line' new_col) = find_all v word_regex flags retry"
    by (simp add: search_entry(3) flags_def retry_def)
  have R: "?R = (if col = new_col then (?l2, None)
                 else (?l2 @ fst (?H line' new_col) @ fst (choose_region fwd (snd (?H line' new_col))),
                       snd (choose_region fwd (snd (?H line' new_col)))))"
    using e
    by (simp add: get_region_of_closest_word_in_line_def Let_def split_beta
        line_def col_def rc_def line'_def new_col_def)
  have n1: "length (searches ?l2) = 1"
    by (simp add: searches_other searches_append search_entry(1,2))
  have n2: "length (searches (?l2 @ fst (?H line' new_col)
              @ fst (choose_region fwd (snd (?H line' new_col))))) = 2"
    by (simp add: searches_other searches_append searches_choose search_entry(1,2))
  show ?thesis
  proof (cases "col = new_col")
    case True
    with R have "?R = (?l2, None)" by (simp only: simp_thms if_True)
    with n1 True show ?thesis by (simp only: fst_conv snd_conv) simp
  next
    case False
    with R have "?R = (?l2 @ fst (?H line' new_col) @ fst (choose_region fwd (snd (?H line' new_col))),
                       snd (choose_region fwd (snd (?H line' new_col))))"
      by (simp only: if_False)
    with n2 r False show ?thesis by (simp only: fst_conv snd_conv) simp
  qed
qed

lemma choose_region_Some:
  "snd (choose_region fwd regs) = Some reg \<Longrightarrow>
     regs \<noteq> [] \<and> reg = (if fwd then hd regs else reverse_region (last regs))"
  by (auto simp: choose_region_def Let_def split: if_splits)

lemma in_line_Some:
  assumes "snd (get_region_of_closest_word_in_line v pt fwd wrap) = Some reg"
  shows "\<exists>span. find_all v word_regex (if fwd then {} else {REVERSE}) span \<noteq> [] \<and>
           reg = (if fwd then hd (find_all v word_regex {} span)
                  else reverse_region (last (find_all v word_regex {REVERSE} span)))"
proof -
  from assms obtain line col where
    "snd (choose_region fwd (snd (u_get_region_of_closet_word_in_line v fwd line col))) = Some reg"
    by (auto simp: get_region_of_closest_word_in_line_def Let_def split_beta split: if_splits)
  from choose_region_Some [OF this] show ?thesis
    unfolding search_entry(3) by (cases fwd) auto
qed

lemma reverse_region_span:
  "region_begin (reverse_region x) = region_begin x" "region_end (reverse_region x) = region_end x"
  by (simp_all add: reverse_region_def region_begin_def region_end_def min_def max_def)

text \<open>
  C10. When in-line navigation finds a word, the region found becomes the selection.
  Backwards it is the reversal of a region \<open>w\<close> that the host's search returned: its
  first coordinate is the end of \<open>w\<close>, its second (the caret) the start. Forwards it is
  a region as the host's search returned it, hence not reversed when the host returns none
  reversed. Reversing a region leaves its begin and end as they are.
\<close>

theorem in_line_region_direction:
  assumes found: "snd (u_get_region_of_closest_word_in_line env v fwd) = Inr (Some reg)"
  shows "selection_after (u_navigate_in_line env v fwd) = Inr [reg] \<and>
         (\<not> fwd \<longrightarrow>
            (\<exists>span. \<exists>w \<in> set (find_all v word_regex {REVERSE} span).
               region_a reg = region_end w \<and> region_b reg = region_begin w) \<and>
            region_b reg \<le> region_a reg) \<and>
         (fwd \<longrightarrow>
            (\<exists>span. reg \<in> set (find_all v word_regex {} span)) \<and>
            ((\<forall>span. \<forall>w \<in> set (find_all v word_regex {} span). region_a w \<le> region_b w) \<longrightarrow>
               region_a reg \<le> region_b reg)) \<and>
         region_begin (reverse_region reg) = region_begin reg \<and>
         region_end (reverse_region reg) = region_end reg"
proof -
  from found have nm: "\<not> is_multiple_regions_selected v"
    by (auto simp: u_get_region_of_closest_word_in_line_def split: if_splits)
  with found obtain r where r: "get_single_selected_region v = Inr r"
    by (cases "get_single_selected_region v")
      (auto simp: u_get_region_of_closest_word_in_line_def)
  then have "sel v \<noteq> []"
    using nm by (auto simp: get_single_selected_region_def get_first_selected_region_def)
  with nm obtain r0 where s: "sel v = [r0]"
    by (cases "sel v") (auto simp: is_multiple_regions_selected_def)
  from found nm r obtain pt where
    p: "snd (get_region_of_closest_word_in_line v pt fwd (wrap_line env)) = Some reg"
    by (auto simp: u_get_region_of_closest_word_in_line_def Let_def split_beta
        split: if_splits sum.splits)
  from select_single [OF s, of reg]
  obtain v' where v': "select_and_zoom_to_region v reg = Inr v'" "sel v' = [reg]" by blast
  have a: "selection_after (u_navigate_in_line env v fwd) = Inr [reg]"
    using found v'
    by (cases "u_get_region_of_closest_word_in_line env v fwd")
      (simp add: u_navigate_in_line_def apply_region_def selection_after_def)
  from in_line_Some [OF p] obtain span where
    sp: "find_all v word_regex (if fwd then {} else {REVERSE}) span \<noteq> []"
      "reg = (if fwd then hd (find_all v word_regex {} span)
              else reverse_region (last (find_all v word_regex {REVERSE} span)))"
    by blast
  have b: "(\<exists>span. \<exists>w \<in> set (find_all v word_regex {REVERSE} span).
               region_a reg = region_end w \<and> region_b reg = region_begin w) \<and>
            region_b reg \<le> region_a reg" if "\<not> fwd"
  proof -
    from that sp have "last (find_all v word_regex {REVERSE} span) \<in> set (find_all v word_regex {REVERSE} span)"
      and "reg = reverse_region (last (find_all v word_regex {REVERSE} span))"
      by simp_all
    then show ?thesis
      by (auto simp: reverse_region_def region_begin_def region_end_def)
  qed
  have c: "(\<exists>span. reg \<in> set (find_all v word_regex {} span)) \<and>
            ((\<forall>span. \<forall>w \<in> set (find_all v word_regex {} span). region_a w \<le> region_b w) \<longrightarrow>
               region_a reg \<le> region_b reg)" if fwd
  proof -
    from that sp have "reg \<in> set (find_all v word_regex {} span)" by simp
    then show ?thesis by blast
  qed
  from a b c show ?thesis by (simp add: reverse_region_span)
qed


text \<open>
  Forwards from the blanks after \<open>foo bar\<close>: the retry from column 0 finds \<open>foo\<close>.
  Forwards from column 0 of a blank line: no retry.
\<close>

lemma in_line_retry_structure_example:
  "find_all (two_lines_view [Region 8 8]) word_regex {} (Region 8 10) = [] \<and>
   snd (get_region_of_closest_word_in_line (two_lines_view [Region 8 8]) 8 True True) = Some (Region 0 3) \<and>
   length (searches (fst (get_region_of_closest_word_in_line (two_lines_view [Region 8 8]) 8 True True))) = 2 \<and>
   find_all (blank_line_view [Region 0 0]) word_regex {} (Region 0 3) = [] \<and>
   snd (get_region_of_closest_word_in_line (blank_line_view [Region 0 0]) 0 True True) = None \<and>
   length (searches (fst (get_region_of_closest_word_in_line (blank_line_view [Region 0 0]) 0 True True))) = 1"
proof -
  let ?v = "two_lines_view [Region 8 8]"
  let ?u = "blank_line_view [Region 0 0]"
  have v: "rowcol ?v 8 = (0, 8)" "text_point ?v 0 8 = 8" "text_point ?v 1 0 = 10"
    "text_point ?v 0 0 = 0"
    "find_all ?v word_regex {} (Region 8 10) = []"
    "find_all ?v word_regex {} (Region 0 10) = [Region 0 3, Region 4 7]"
    by code_simp+
  have u: "rowcol ?u 0 = (0, 0)" "text_point ?u 0 0 = 0" "text_point ?u 1 0 = 3"
    "find_all ?u word_regex {} (Region 0 3) = []"
    by code_simp+
  from in_line_retry_structure [where v = ?v and pt = 8 and fwd = True] v
  have "snd (get_region_of_closest_word_in_line ?v 8 True True) = Some (Region 0 3) \<and>
        length (searches (fst (get_region_of_closest_word_in_line ?v 8 True True))) = 2"
    by (simp add: choose_region_def)
  moreover from in_line_retry_structure [where v = ?u and pt = 0 and fwd = True] u
  have "snd (get_region_of_closest_word_in_line ?u 0 True True) = None \<and>
        length (searches (fst (get_region_of_closest_word_in_line ?u 0 True True))) = 1"
    by simp
  ultimately show ?thesis using v(5) u(4) by simp
qed

text \<open>
  Backwards from the blanks after \<open>foo bar\<close> the selection is \<open>bar\<close> reversed;
  forwards from the end of \<open>foo\<close> it is \<open>bar\<close>.
\<close>

theorem in_line_region_direction_witness:
  "snd (u_get_region_of_closest_word_in_line default_env (two_lines_view [Region 8 8]) False)
     = Inr (Some (Region 7 4)) \<and>
   selection_after (u_navigate_in_line default_env (two_lines_view [Region 8 8]) False) = Inr [Region 7 4] \<and>
   snd (u_get_region_of_closest_word_in_line default_env (two_lines_view [Region 3 3]) True)
     = Inr (Some (Region 4 7)) \<and>
   selection_after (u_navigate_in_line default_env (two_lines_view [Region 3 3]) True) = Inr [Region 4 7]"
proof -
  have b: "snd (u_get_region_of_closest_word_in_line default_env (two_lines_view [Region 8 8]) False)
     = Inr (Some (Region 7 4))"
    by code_simp
  have f: "snd (u_get_region_of_closest_word_in_line default_env (two_lines_view [Region 3 3]) True)
     = Inr (Some (Region 4 7))"
    by code_simp
  from in_line_region_direction [OF b] in_line_region_direction [OF f] b f show ?thesis by simp
qed

text \<open>
  C7. After an empty first search with wrapping enabled, the search should be repeated
  from the opposite end of the line. Backwards on the last line of a buffer that does not
  end in a newline it is not: in the buffer of two lines, with the caret at the start of
  \<open>baz\<close> (line 1, column 0), the end of the line is column 3, but the column computed
  for the retry is 2, the retry searches the offsets 10 to 12, and nothing is found and
  selected although \<open>baz\<close> (10 to 13) is the word of that line.
\<close>

theorem in_line_backward_retry_short:
  "is_not_part_of_any_word (two_lines_view [Region 10 10]) (Region 10 10) \<and>
   rowcol (two_lines_view [Region 10 10]) 10 = (1, 0) \<and>
   rowcol (two_lines_view [Region 10 10]) 13 = (1, 3) \<and>
   find_all (two_lines_view [Region 10 10]) word_regex {REVERSE} (Region 10 13) = [Region 10 13] \<and>
   rowcol (two_lines_view [Region 10 10])
     (text_point (two_lines_view [Region 10 10]) (1 + 1) 0 - 1) = (1, 2) \<and>
   text_point (two_lines_view [Region 10 10]) 1 2 = 12 \<and>
   snd (get_region_of_closest_word_in_line (two_lines_view [Region 10 10]) 10 False True) = None \<and>
   length (searches (fst (get_region_of_closest_word_in_line (two_lines_view [Region 10 10]) 10 False True))) = 2 \<and>
   selection_after (navigate_backward_in_line default_env (two_lines_view [Region 10 10]))
     = Inr [Region 10 10]"
  by code_simp

text \<open>
  On an empty last line the column for the retry is taken from the line before, and the
  retry searches that line: from the empty line after \<open>foo\<close> the search backwards
  returns \<open>foo\<close> of the line above.
\<close>

lemma in_line_backward_retry_other_line:
  "rowcol (empty_last_line_view [Region 4 4]) 4 = (1, 0) \<and>
   rowcol (empty_last_line_view [Region 4 4])
     (text_point (empty_last_line_view [Region 4 4]) (1 + 1) 0 - 1) = (0, 3) \<and>
   snd (get_region_of_closest_word_in_line (empty_last_line_view [Region 4 4]) 4 False True)
     = Some (Region 3 0)"
  by code_simp

end
